theory Spec2Isabelle
  imports Main "HOL-Library.Sublist"
begin

section \<open>Python strings\<close>

text \<open>
  A Python \<open>str\<close> is a sequence of Unicode code points; \<open>len\<close>, indexing and slicing
  count code points. A string is modelled as the list of its code points, and a literal
  of the source is written \<open>ustr ''...''\<close> when it is ASCII and as an explicit list of code
  points otherwise.
\<close>

type_synonym pystr = "nat list"

definition ustr :: "string \<Rightarrow> pystr" where
  "ustr s = map of_char s"

text \<open>
  What the programs use of two libraries that are not part of the repository is taken as a
  parameter: the tables of the interpreter's Unicode database for the code points above
  ASCII (the classification behind \<open>str.isalnum\<close>, \<open>\w\<close>, \<open>\d\<close> and the mapping of
  \<open>str.upper\<close>), and \<open>w2n.word_to_num\<close> of the word2number package. The field
  \<open>word_to_num\<close> is \<open>str(w2n.word_to_num(text))\<close>, with \<open>None\<close> where the call raises.
\<close>

record py_env =
  uni_alnum :: "nat \<Rightarrow> bool"
  uni_decimal :: "nat \<Rightarrow> bool"
  uni_upper :: "nat \<Rightarrow> pystr"
  word_to_num :: "pystr \<Rightarrow> pystr option"

definition ascii_digit :: "nat \<Rightarrow> bool" where
  "ascii_digit c = (48 \<le> c \<and> c \<le> 57)"

definition ascii_alpha :: "nat \<Rightarrow> bool" where
  "ascii_alpha c = ((65 \<le> c \<and> c \<le> 90) \<or> (97 \<le> c \<and> c \<le> 122))"

definition is_alnum :: "py_env \<Rightarrow> nat \<Rightarrow> bool" where
  "is_alnum E c = (if c < 128 then ascii_alpha c \<or> ascii_digit c else uni_alnum E c)"

definition is_word :: "py_env \<Rightarrow> nat \<Rightarrow> bool" where
  "is_word E c = (is_alnum E c \<or> c = 95)"

definition is_digit :: "py_env \<Rightarrow> nat \<Rightarrow> bool" where
  "is_digit E c = (if c < 128 then ascii_digit c else uni_decimal E c)"

text \<open>The code points for which \<open>str.isspace\<close> holds; \<open>str.strip()\<close> and \<open>\s\<close> use them.\<close>

definition is_space :: "nat \<Rightarrow> bool" where
  "is_space c = ((9 \<le> c \<and> c \<le> 13) \<or> (28 \<le> c \<and> c \<le> 32) \<or> c = 133 \<or> c = 160
     \<or> c = 5760 \<or> (8192 \<le> c \<and> c \<le> 8202) \<or> c = 8232 \<or> c = 8233 \<or> c = 8239
     \<or> c = 8287 \<or> c = 12288)"

definition upper_char :: "py_env \<Rightarrow> nat \<Rightarrow> pystr" where
  "upper_char E c = (if c < 128 then (if 97 \<le> c \<and> c \<le> 122 then [c - 32] else [c])
     else uni_upper E c)"

definition upper :: "py_env \<Rightarrow> pystr \<Rightarrow> pystr" where
  "upper E s = concat (map (upper_char E) s)"

definition isalnum :: "py_env \<Rightarrow> pystr \<Rightarrow> bool" where
  "isalnum E s = (s \<noteq> [] \<and> list_all (is_alnum E) s)"

text \<open>\<open>sub in s\<close>.\<close>

fun contains :: "pystr \<Rightarrow> pystr \<Rightarrow> bool" where
  "contains sub [] = (sub = [])"
| "contains sub (c # cs) = (prefix sub (c # cs) \<or> contains sub cs)"

text \<open>
  \<open>s.replace(old, new)\<close>: the occurrences of \<open>old\<close> are found from the left and do not
  overlap. Every call of the source passes a non-empty \<open>old\<close>; for an empty one the model
  returns \<open>s\<close>.
\<close>

function replace :: "pystr \<Rightarrow> pystr \<Rightarrow> pystr \<Rightarrow> pystr" where
  "replace old new [] = []"
| "replace old new (c # cs) =
     (if old \<noteq> [] \<and> prefix old (c # cs)
      then new @ replace old new (drop (length old) (c # cs))
      else c # replace old new cs)"
  by pat_completeness auto
termination
  by (relation "measure (\<lambda>(old, new, s). length s)") (auto simp: neq_Nil_conv)

text \<open>\<open>s.count(sub)\<close>, for a non-empty \<open>sub\<close>.\<close>

function count :: "pystr \<Rightarrow> pystr \<Rightarrow> nat" where
  "count sub [] = 0"
| "count sub (c # cs) =
     (if sub \<noteq> [] \<and> prefix sub (c # cs)
      then Suc (count sub (drop (length sub) (c # cs)))
      else count sub cs)"
  by pat_completeness auto
termination
  by (relation "measure (\<lambda>(sub, s). length s)") (auto simp: neq_Nil_conv)

text \<open>
  \<open>s.split(sep)\<close> and \<open>s.split(sep, 1)\<close> for a non-empty separator: \<open>split_from sep cur s\<close>
  has read the piece \<open>cur\<close> so far. The result is never empty.
\<close>

function split_from :: "pystr \<Rightarrow> pystr \<Rightarrow> pystr \<Rightarrow> pystr list" where
  "split_from sep cur [] = [cur]"
| "split_from sep cur (c # cs) =
     (if sep \<noteq> [] \<and> prefix sep (c # cs)
      then cur # split_from sep [] (drop (length sep) (c # cs))
      else split_from sep (cur @ [c]) cs)"
  by pat_completeness auto
termination
  by (relation "measure (\<lambda>(sep, cur, s). length s)") (auto simp: neq_Nil_conv)

definition split :: "pystr \<Rightarrow> pystr \<Rightarrow> pystr list" where
  "split sep s = split_from sep [] s"

fun split1_from :: "pystr \<Rightarrow> pystr \<Rightarrow> pystr \<Rightarrow> pystr list" where
  "split1_from sep cur [] = [cur]"
| "split1_from sep cur (c # cs) =
     (if sep \<noteq> [] \<and> prefix sep (c # cs)
      then [cur, drop (length sep) (c # cs)]
      else split1_from sep (cur @ [c]) cs)"

definition split1 :: "pystr \<Rightarrow> pystr \<Rightarrow> pystr list" where
  "split1 sep s = split1_from sep [] s"

text \<open>\<open>s.lstrip(chars)\<close>, \<open>s.rstrip(chars)\<close>, \<open>s.strip(chars)\<close> and \<open>s.strip()\<close>.\<close>

definition lstrip :: "pystr \<Rightarrow> pystr \<Rightarrow> pystr" where
  "lstrip chars s = dropWhile (\<lambda>c. c \<in> set chars) s"

definition rstrip :: "pystr \<Rightarrow> pystr \<Rightarrow> pystr" where
  "rstrip chars s = rev (dropWhile (\<lambda>c. c \<in> set chars) (rev s))"

definition strip_chars :: "pystr \<Rightarrow> pystr \<Rightarrow> pystr" where
  "strip_chars chars s = rstrip chars (lstrip chars s)"

definition strip :: "pystr \<Rightarrow> pystr" where
  "strip s = rev (dropWhile is_space (rev (dropWhile is_space s)))"

section \<open>Regular expressions\<close>

text \<open>
  The patterns of the source use a small part of Python's \<open>re\<close>: literal characters,
  \<open>.\<close>, the classes \<open>\w \W \d [^\d] \s\<close>, the quantifiers \<open>* + ? *?\<close> on a single
  character or class, the anchors \<open>^ $ \b\<close>, alternation and numbered groups. A pattern
  is a term of \<open>rx\<close>. \<open>re\<close> is a backtracking matcher: of all the ways a pattern matches at
  a position it takes the first in its search order (a greedy quantifier tries the longest
  run first, a lazy one the shortest, an alternation its left branch first).
  \<open>rx_m\<close> lists the ways in that order.

  A matcher state is the character before the current position (\<open>None\<close> at the start of
  the string), the text from the current position on, and the groups captured so far.
\<close>

datatype atom = Lit nat | Dot | DotAll | Word | NonWord | Digit | NonDigit | Space

datatype rx =
    Eps
  | Atom atom
  | Star atom
  | Lazy atom
  | Plus atom
  | Opt atom
  | Bol
  | Eol
  | Bnd
  | Cat rx rx
  | Or rx rx
  | Grp nat rx

type_synonym mstate = "nat option \<times> pystr \<times> (nat \<times> pystr) list"

fun atom_ok :: "py_env \<Rightarrow> atom \<Rightarrow> nat \<Rightarrow> bool" where
  "atom_ok E (Lit k) c = (c = k)"
| "atom_ok E Dot c = (c \<noteq> 10)"
| "atom_ok E DotAll c = True"
| "atom_ok E Word c = is_word E c"
| "atom_ok E NonWord c = (\<not> is_word E c)"
| "atom_ok E Digit c = is_digit E c"
| "atom_ok E NonDigit c = (\<not> is_digit E c)"
| "atom_ok E Space c = is_space c"

text \<open>The states after 0, 1, 2, ... characters that the atom accepts, shortest run first.\<close>

fun runs :: "py_env \<Rightarrow> atom \<Rightarrow> nat option \<Rightarrow> pystr \<Rightarrow> (nat option \<times> pystr) list" where
  "runs E a p [] = [(p, [])]"
| "runs E a p (c # cs) =
     (p, c # cs) # (if atom_ok E a c then runs E a (Some c) cs else [])"

definition word_before :: "py_env \<Rightarrow> nat option \<Rightarrow> bool" where
  "word_before E p = (case p of None \<Rightarrow> False | Some c \<Rightarrow> is_word E c)"

definition word_after :: "py_env \<Rightarrow> pystr \<Rightarrow> bool" where
  "word_after E s = (case s of [] \<Rightarrow> False | c # _ \<Rightarrow> is_word E c)"

fun rx_m :: "py_env \<Rightarrow> rx \<Rightarrow> mstate \<Rightarrow> mstate list" where
  "rx_m E Eps st = [st]"
| "rx_m E (Atom a) (p, s, g) =
     (case s of [] \<Rightarrow> [] | c # cs \<Rightarrow> if atom_ok E a c then [(Some c, cs, g)] else [])"
| "rx_m E (Star a) (p, s, g) = map (\<lambda>(q, t). (q, t, g)) (rev (runs E a p s))"
| "rx_m E (Lazy a) (p, s, g) = map (\<lambda>(q, t). (q, t, g)) (runs E a p s)"
| "rx_m E (Plus a) (p, s, g) = map (\<lambda>(q, t). (q, t, g)) (rev (tl (runs E a p s)))"
| "rx_m E (Opt a) (p, s, g) = map (\<lambda>(q, t). (q, t, g)) (rev (take 2 (runs E a p s)))"
| "rx_m E Bol (p, s, g) = (if p = None then [(p, s, g)] else [])"
| "rx_m E Eol (p, s, g) = (if s = [] \<or> s = [10] then [(p, s, g)] else [])"
| "rx_m E Bnd (p, s, g) = (if word_before E p \<noteq> word_after E s then [(p, s, g)] else [])"
| "rx_m E (Cat r1 r2) st = concat (map (rx_m E r2) (rx_m E r1 st))"
| "rx_m E (Or r1 r2) st = rx_m E r1 st @ rx_m E r2 st"
| "rx_m E (Grp k r) (p, s, g) =
     map (\<lambda>(q, t, h). (q, t, (k, take (length s - length t) s) # h)) (rx_m E r (p, s, g))"

text \<open>A literal string as a pattern.\<close>

fun lits :: "pystr \<Rightarrow> rx" where
  "lits [] = Eps"
| "lits (c # cs) = Cat (Atom (Lit c)) (lits cs)"

text \<open>
  A replacement template: literal text and group references \<open>\1\<close>, \<open>\2\<close>. A group that
  took no part in the match expands to the empty string.
\<close>

datatype tmpl = TLit pystr | TGrp nat

fun expand :: "tmpl list \<Rightarrow> (nat \<times> pystr) list \<Rightarrow> pystr" where
  "expand [] g = []"
| "expand (TLit t # ts) g = t @ expand ts g"
| "expand (TGrp k # ts) g = (case map_of g k of None \<Rightarrow> [] | Some t \<Rightarrow> t) @ expand ts g"

text \<open>
  \<open>re.sub(pattern, repl, s)\<close>: the leftmost match from the current position is replaced
  and the search goes on behind it. After an empty match the next character is copied;
  none of the patterns of the source matches the empty string.
\<close>

function rx_sub_from :: "py_env \<Rightarrow> rx \<Rightarrow> tmpl list \<Rightarrow> nat option \<Rightarrow> pystr \<Rightarrow> pystr" where
  "rx_sub_from E r t p s =
     (case rx_m E r (p, s, []) of
        (q, s', g) # _ \<Rightarrow>
          if length s' < length s then expand t g @ rx_sub_from E r t q s'
          else expand t g @ (case s of [] \<Rightarrow> [] | c # cs \<Rightarrow> c # rx_sub_from E r t (Some c) cs)
      | [] \<Rightarrow> (case s of [] \<Rightarrow> [] | c # cs \<Rightarrow> c # rx_sub_from E r t (Some c) cs))"
  by pat_completeness auto
termination
  by (relation "measure (\<lambda>(E, r, t, p, s). length s)") auto

definition rx_sub :: "py_env \<Rightarrow> rx \<Rightarrow> tmpl list \<Rightarrow> pystr \<Rightarrow> pystr" where
  "rx_sub E r t s = rx_sub_from E r t None s"

text \<open>\<open>re.sub(pattern, repl, s, count=1)\<close>: only the leftmost match is replaced.\<close>

fun rx_sub1_from :: "py_env \<Rightarrow> rx \<Rightarrow> tmpl list \<Rightarrow> nat option \<Rightarrow> pystr \<Rightarrow> pystr" where
  "rx_sub1_from E r t p [] =
     (case rx_m E r (p, [], []) of (q, s', g) # _ \<Rightarrow> expand t g | [] \<Rightarrow> [])"
| "rx_sub1_from E r t p (c # cs) =
     (case rx_m E r (p, c # cs, []) of
        (q, s', g) # _ \<Rightarrow> expand t g @ s'
      | [] \<Rightarrow> c # rx_sub1_from E r t (Some c) cs)"

definition rx_sub1 :: "py_env \<Rightarrow> rx \<Rightarrow> tmpl list \<Rightarrow> pystr \<Rightarrow> pystr" where
  "rx_sub1 E r t s = rx_sub1_from E r t None s"

text \<open>
  The matches that \<open>re.findall\<close> and \<open>re.split\<close> walk through, from the left and without
  overlap: each with the text skipped before it, the text matched and its groups, and at
  the end the text behind the last match.
\<close>

function rx_matches ::
  "py_env \<Rightarrow> rx \<Rightarrow> nat option \<Rightarrow> pystr \<Rightarrow> pystr \<Rightarrow> (pystr \<times> pystr \<times> (nat \<times> pystr) list) list \<times> pystr"
where
  "rx_matches E r p cur s =
     (case rx_m E r (p, s, []) of
        (q, s', g) # _ \<Rightarrow>
          if length s' < length s
          then (let (ms, rest) = rx_matches E r q [] s'
                in ((cur, take (length s - length s') s, g) # ms, rest))
          else (case s of
                  [] \<Rightarrow> ([(cur, [], g)], [])
                | c # cs \<Rightarrow> (let (ms, rest) = rx_matches E r (Some c) [c] cs
                            in ((cur, [], g) # ms, rest)))
      | [] \<Rightarrow> (case s of
                 [] \<Rightarrow> ([], cur)
               | c # cs \<Rightarrow> rx_matches E r (Some c) (cur @ [c]) cs))"
  by pat_completeness auto
termination
  by (relation "measure (\<lambda>(E, r, p, cur, s). length s)") auto

text \<open>\<open>re.findall\<close> for a pattern without groups (the whole match) and with one group.\<close>

definition findall :: "py_env \<Rightarrow> rx \<Rightarrow> pystr \<Rightarrow> pystr list" where
  "findall E r s = map (\<lambda>(skipped, m, g). m) (fst (rx_matches E r None [] s))"

definition findall_group :: "py_env \<Rightarrow> rx \<Rightarrow> nat \<Rightarrow> pystr \<Rightarrow> pystr list" where
  "findall_group E r k s =
     map (\<lambda>(skipped, m, g). case map_of g k of None \<Rightarrow> [] | Some t \<Rightarrow> t)
       (fst (rx_matches E r None [] s))"

text \<open>\<open>re.split\<close> for a pattern without groups.\<close>

definition rx_split :: "py_env \<Rightarrow> rx \<Rightarrow> pystr \<Rightarrow> pystr list" where
  "rx_split E r s =
     (let (ms, rest) = rx_matches E r None [] s
      in map (\<lambda>(skipped, m, g). skipped) ms @ [rest])"

section \<open>Errors and indexing\<close>

datatype py_error = IndexError | KeyError | AttributeError | TypeError | LibraryError

text \<open>\<open>xs[i]\<close>: a negative index counts from the end, an index out of range raises.\<close>

definition idx :: "'a list \<Rightarrow> int \<Rightarrow> py_error + 'a" where
  "idx xs i =
     (let n = int (length xs); j = (if i < 0 then i + n else i)
      in if j < 0 \<or> n \<le> j then Inl IndexError else Inr (xs ! nat j))"

definition and_then :: "py_error + 'a \<Rightarrow> ('a \<Rightarrow> py_error + 'b) \<Rightarrow> py_error + 'b" where
  "and_then m f = (case m of Inl e \<Rightarrow> Inl e | Inr x \<Rightarrow> f x)"

text \<open>A backslash followed by the given text, as in \<open>"\\frac"\<close>.\<close>

definition cmd :: "string \<Rightarrow> pystr" where
  "cmd s = 92 # ustr s"

definition seq :: "rx list \<Rightarrow> rx" where
  "seq rs = foldr Cat rs Eps"

section \<open>examples/DAPO/parser.py\<close>

subsection \<open>\<open>_fix_fracs\<close>\<close>

text \<open>
  The loop over the pieces behind each \<open>\frac\<close>: \<open>None\<close> is the early
  \<open>return string\<close> taken when the assertion \<open>len(substr) >= 2\<close> fails.
\<close>

fun fix_fracs_loop :: "pystr \<Rightarrow> pystr list \<Rightarrow> pystr option" where
  "fix_fracs_loop new_str [] = Some new_str"
| "fix_fracs_loop new_str (substr # substrs) =
     (let new_str = new_str @ cmd ''frac'' in
      if 0 < length substr \<and> hd substr = 123 then fix_fracs_loop (new_str @ substr) substrs
      else (case substr of
              a # b # post_substr \<Rightarrow>
                if b \<noteq> 123
                then fix_fracs_loop (new_str @ ustr ''{'' @ [a] @ ustr ''}{'' @ [b] @ ustr ''}''
                       @ post_substr) substrs
                else fix_fracs_loop (new_str @ ustr ''{'' @ [a] @ ustr ''}'' @ [b]
                       @ post_substr) substrs
            | _ \<Rightarrow> None))"

definition fix_fracs :: "pystr \<Rightarrow> pystr" where
  "fix_fracs string =
     (case split (cmd ''frac'') string of
        [] \<Rightarrow> string
      | first # substrs \<Rightarrow>
          (case fix_fracs_loop first substrs of None \<Rightarrow> string | Some new_str \<Rightarrow> new_str))"

subsection \<open>\<open>_fix_a_slash_b\<close>\<close>

text \<open>
  \<open>int(s)\<close> on a string: surrounding whitespace is dropped, a sign may come first, and
  the digits may be separated by single underscores; anything else raises (\<open>None\<close>).
  Decimal digits above ASCII, which \<open>int\<close> reads too, are not read here: the assertion of
  \<open>_fix_a_slash_b\<close> compares with \<open>str\<close> of the number, which is ASCII, so the function
  returns its argument for them either way.
\<close>

fun digits_ok :: "bool \<Rightarrow> pystr \<Rightarrow> bool" where
  "digits_ok after_digit [] = after_digit"
| "digits_ok after_digit (c # cs) =
     (if ascii_digit c then digits_ok True cs
      else c = 95 \<and> after_digit \<and> digits_ok False cs)"

definition digits_value :: "pystr \<Rightarrow> int" where
  "digits_value ds = foldl (\<lambda>v c. 10 * v + int (c - 48)) 0 (filter ascii_digit ds)"

definition py_int :: "pystr \<Rightarrow> int option" where
  "py_int s =
     (let t = strip s;
          neg = (t \<noteq> [] \<and> hd t = 45);
          body = (if t \<noteq> [] \<and> (hd t = 45 \<or> hd t = 43) then tl t else t)
      in if digits_ok False body then Some (if neg then - digits_value body else digits_value body)
         else None)"

function digits_of :: "nat \<Rightarrow> pystr" where
  "digits_of n = (if n < 10 then [48 + n] else digits_of (n div 10) @ [48 + n mod 10])"
  by pat_completeness auto
termination
  by (relation "measure id") auto

definition py_str :: "int \<Rightarrow> pystr" where
  "py_str i = (if i < 0 then 45 # digits_of (nat (- i)) else digits_of (nat i))"

text \<open>
  One side of the fraction as the f-string prints it: the text itself when it contains
  \<open>sqrt\<close>, otherwise \<open>str(int(text))\<close>, or \<open>None\<close> when \<open>int\<close> raises.
\<close>

definition slash_side :: "pystr \<Rightarrow> pystr option" where
  "slash_side a = (if \<not> contains (ustr ''sqrt'') a then map_option py_str (py_int a) else Some a)"

definition fix_a_slash_b :: "pystr \<Rightarrow> pystr" where
  "fix_a_slash_b string =
     (case split (ustr ''/'') string of
        [a, b] \<Rightarrow>
          (case (slash_side a, slash_side b) of
             (Some a', Some b') \<Rightarrow>
               if string = a' @ ustr ''/'' @ b'
               then cmd ''frac{'' @ a' @ ustr ''}{'' @ b' @ ustr ''}''
               else string
           | _ \<Rightarrow> string)
      | _ \<Rightarrow> string)"

subsection \<open>\<open>_fix_sqrt\<close> and \<open>convert_word_number\<close>\<close>

definition fix_sqrt :: "py_env \<Rightarrow> pystr \<Rightarrow> pystr" where
  "fix_sqrt E string =
     rx_sub E (seq [lits (cmd ''sqrt''), Grp 1 (Plus Word)])
       [TLit (cmd ''sqrt{''), TGrp 1, TLit (ustr ''}'')] string"

definition convert_word_number :: "py_env \<Rightarrow> pystr \<Rightarrow> pystr" where
  "convert_word_number E text = (case word_to_num E text of Some t \<Rightarrow> t | None \<Rightarrow> text)"

subsection \<open>\<open>UNIT_TEXTS\<close>\<close>

definition UNIT_TEXTS_singular :: "pystr list" where
  "UNIT_TEXTS_singular = [
    ustr ''east'', ustr ''degree'', ustr ''mph'', ustr ''kmph'', ustr ''ft'',
    ustr ''m sqaure'', ustr '' m east'', ustr ''sq m'', ustr ''deg'', ustr ''mile'',
    ustr ''q .'', ustr ''monkey'', ustr ''prime'', ustr ''ratio'', ustr ''profit of rs'',
    ustr ''rd'', ustr ''o'', ustr ''gm'', ustr ''p . m'', ustr ''lb'', ustr ''tile'',
    ustr ''per'', ustr ''dm'', ustr ''lt'', ustr ''gain'', ustr ''ab'', ustr ''way'',
    ustr ''west'', ustr ''a .'', ustr ''b .'', ustr ''c .'', ustr ''d .'', ustr ''e .'',
    ustr ''f .'', ustr ''g .'', ustr ''h .'', ustr ''t'', ustr ''a'', ustr ''h'',
    ustr ''no change'', ustr ''men'', ustr ''soldier'', ustr ''pie'', ustr ''bc'',
    ustr ''excess'', ustr ''st'', ustr ''inches'', ustr ''noon'', ustr ''percent'',
    ustr ''by'', ustr ''gal'', ustr ''kmh'', ustr ''c'', ustr ''acre'', ustr ''rise'',
    ustr ''a . m'', ustr ''th'', [960] @ ustr '' r 2'', ustr ''sq'', ustr ''mark'',
    ustr ''l'', ustr ''toy'', ustr ''coin'', ustr ''sq . m'', ustr ''gallon'',
    [176] @ ustr '' f'', ustr ''profit'', ustr ''minw'', ustr ''yr'', ustr ''women'',
    ustr ''feet'', ustr ''am'', ustr ''pm'', ustr ''hr'', ustr ''cu cm'', ustr ''square'',
    ustr ''v '' @ [226] @ ustr '' '' @ [8364] @ ustr '' '' @ [8482], ustr ''are'',
    ustr ''rupee'', ustr ''rounds'', ustr ''cubic'', ustr ''cc'', ustr ''mtr'', ustr ''s'',
    ustr ''ohm'', ustr ''number'', ustr ''kmph'', ustr ''day'', ustr ''hour'',
    ustr ''minute'', ustr ''min'', ustr ''second'', ustr ''man'', ustr ''woman'',
    ustr ''sec'', ustr ''cube'', ustr ''mt'', ustr ''sq inch'', ustr ''mp'',
    [8719] @ ustr '' cm '' @ [179], ustr ''hectare'', ustr ''more'', ustr ''sec'',
    ustr ''unit'', ustr ''cu . m'', ustr ''cm 2'', ustr ''rs .'', ustr ''rs'', ustr ''kg'',
    ustr ''g'', ustr ''month'', ustr ''km'', ustr ''m'', ustr ''cm'', ustr ''mm'',
    ustr ''apple'', ustr ''liter'', ustr ''loss'', ustr ''yard'', ustr ''pure'',
    ustr ''year'', ustr ''increase'', ustr ''decrease'', ustr ''d'', ustr ''less'',
    ustr ''Surface'', ustr ''litre'', ustr ''pi sq m'', ustr ''s .'', ustr ''metre'',
    ustr ''meter'', ustr ''inch'']"

definition UNIT_TEXTS :: "pystr list" where
  "UNIT_TEXTS = UNIT_TEXTS_singular @ map (\<lambda>t. t @ ustr ''s'') UNIT_TEXTS_singular"

text \<open>
  The pattern \<open>r"(^|\W)" + unit_text + r"($|\W)"\<close>. In a unit text only the full stop
  is special to \<open>re\<close>; every other character stands for itself.
\<close>

definition unit_body :: "pystr \<Rightarrow> rx" where
  "unit_body u = seq (map (\<lambda>c. if c = 46 then Atom Dot else Atom (Lit c)) u)"

definition unit_rx :: "pystr \<Rightarrow> rx" where
  "unit_rx u = seq [Grp 1 (Or Bol (Atom NonWord)), unit_body u, Grp 2 (Or Eol (Atom NonWord))]"

subsection \<open>\<open>strip_string\<close>\<close>

text \<open>
  The function is a straight line of rewrites of one variable. The model gives each
  commented block of the source its own definition and composes them in the order of the
  source.
\<close>

definition strip_start :: "pystr \<Rightarrow> pystr" where
  "strip_start string =
     (let string = strip string;
          string = replace [10] [] string;
          string = rstrip (ustr ''.'') string
      in replace (cmd ''!'') [] string)"

definition matrix_normalization :: "py_env \<Rightarrow> pystr \<Rightarrow> pystr" where
  "matrix_normalization E string =
     (let string = rx_sub E (seq [lits (cmd ''begin{array}{''), Lazy Dot, Atom (Lit 125)])
                     [TLit (cmd ''begin{pmatrix}'')] string;
          string = rx_sub E (lits (cmd ''end{array}'')) [TLit (cmd ''end{pmatrix}'')] string
      in replace (ustr ''bmatrix'') (ustr ''pmatrix'') string)"

definition latex_normalization :: "pystr \<Rightarrow> pystr" where
  "latex_normalization string =
     (let string = replace (ustr ''tfrac'') (ustr ''frac'') string;
          string = replace (ustr ''dfrac'') (ustr ''frac'') string;
          string = replace (cmd ''geq'') (cmd ''ge'')
                     (replace (cmd ''leq'') (cmd ''le'')
                       (replace (cmd ''neq'') (cmd ''ne'') string));
          string = replace (cmd ''left'') [] string;
          string = replace (cmd ''right'') [] string;
          string = replace (cmd ''{'') (ustr ''{'') string
      in replace (cmd ''}'') (ustr ''}'') string)"

definition remove_text_units :: "py_env \<Rightarrow> pystr \<Rightarrow> pystr" where
  "remove_text_units E string =
     (let s' = strip (rx_sub E (seq [lits (cmd ''text{''), Lazy Dot, Atom (Lit 125), Eol]) []
                        string)
      in if s' \<noteq> [] \<and> s' \<noteq> string then s' else string)"

text \<open>One round of the inner loop over \<open>UNIT_TEXTS\<close>, and the two rounds of the outer.\<close>

fun strip_units_pass :: "py_env \<Rightarrow> pystr list \<Rightarrow> pystr \<Rightarrow> pystr" where
  "strip_units_pass E [] string = string"
| "strip_units_pass E (unit_text # units) string =
     (let s' = rx_sub E (unit_rx unit_text) [TGrp 1, TGrp 2] string
      in strip_units_pass E units (if s' \<noteq> [] then s' else string))"

definition strip_units :: "py_env \<Rightarrow> bool \<Rightarrow> pystr \<Rightarrow> pystr" where
  "strip_units E skip_unit string =
     (if \<not> skip_unit
      then strip_units_pass E UNIT_TEXTS (strip_units_pass E UNIT_TEXTS string)
      else string)"

definition remove_degree_currency :: "pystr \<Rightarrow> pystr" where
  "remove_degree_currency string =
     (let string = replace (ustr ''^{'' @ cmd ''circ}'') [] string;
          string = replace (ustr ''^'' @ cmd ''circ'') [] string;
          string = replace (cmd ''$'') [] string;
          string = replace (ustr ''$'') [] string
      in replace (cmd '')'') [] (replace (cmd ''('') [] string))"

fun replace_keys :: "pystr list \<Rightarrow> pystr \<Rightarrow> pystr" where
  "replace_keys [] string = string"
| "replace_keys (key # keys) string = replace_keys keys (replace key [] string)"

definition clean_text_formatting :: "py_env \<Rightarrow> pystr \<Rightarrow> pystr" where
  "clean_text_formatting E string =
     (let string = rx_sub E (seq [lits (cmd ''text{''), Grp 1 (Lazy Dot), Atom (Lit 125)])
                     [TGrp 1] string;
          string = replace_keys
                     [ustr ''x='', ustr ''y='', ustr ''z='',
                      ustr ''x'' @ cmd ''in'', ustr ''y'' @ cmd ''in'', ustr ''z'' @ cmd ''in'',
                      ustr ''x'' @ cmd ''to'', ustr ''y'' @ cmd ''to'', ustr ''z'' @ cmd ''to'']
                     string;
          string = replace (cmd ''emptyset'') (ustr ''{}'') string
      in replace (ustr ''(-'' @ cmd ''infty,'' @ cmd ''infty)'') (cmd ''mathbb{R}'') string)"

definition remove_percentage :: "pystr \<Rightarrow> pystr" where
  "remove_percentage string =
     (let string = replace (cmd ''%'') [] string;
          string = replace (cmd ''%'') [] string
      in replace (ustr ''%'') [] string)"

definition decimal_normalization :: "pystr \<Rightarrow> pystr" where
  "decimal_normalization string =
     replace (ustr ''{.'') (ustr ''{0.'') (replace (ustr '' .'') (ustr '' 0.'') string)"

text \<open>
  The test on the brackets as the source writes it: \<open>string.isalnum()\<close> is asked of the
  whole string, brackets included. \<open>string[1:-1]\<close> is \<open>butlast (tl string)\<close>.
\<close>

definition remove_enclosing_brackets :: "py_env \<Rightarrow> pystr \<Rightarrow> pystr" where
  "remove_enclosing_brackets E string =
     (if (prefix (ustr ''{'') string \<and> suffix (ustr ''}'') string \<and> isalnum E string)
         \<or> (prefix (ustr ''('') string \<and> suffix (ustr '')'') string \<and> isalnum E string)
         \<or> (prefix (ustr ''['') string \<and> suffix (ustr '']'') string \<and> isalnum E string)
      then butlast (tl string)
      else string)"

definition infinity_normalization :: "pystr \<Rightarrow> pystr" where
  "infinity_normalization string =
     (let string = replace (ustr ''infinity'') (cmd ''infty'') string;
          string = (if \<not> contains (cmd ''infty'') string
                    then replace (ustr ''inf'') (cmd ''infty'') string else string)
      in replace (ustr ''+'' @ cmd ''inity'') (cmd ''infty'') string)"

text \<open>
  Lines 298 to 305. The two statements \<open>string.replace("'", "")\<close> and
  \<open>string.replace('"', "")\<close> drop their result and change nothing.
\<close>

definition remove_words :: "py_env \<Rightarrow> pystr \<Rightarrow> pystr" where
  "remove_words E string =
     (let string = replace (ustr ''and'') [] string;
          string = replace (cmd ''mathbf'') [] string;
          string = rx_sub E (seq [lits (cmd ''mbox{''), Lazy Dot, Atom (Lit 125)]) [] string
      in if contains (ustr ''j'') string \<and> \<not> contains (ustr ''i'') string
         then replace (ustr ''j'') (ustr ''i'') string else string)"

definition clean_trailing_zeros :: "py_env \<Rightarrow> pystr \<Rightarrow> pystr" where
  "clean_trailing_zeros E string =
     (let string = rx_sub E (seq [Grp 1 (Plus Digit), Atom (Lit 46), Star (Lit 48),
                                  Grp 2 (Atom NonDigit)]) [TGrp 1, TGrp 2] string
      in rx_sub E (seq [Grp 1 (Plus Digit), Atom (Lit 46), Star (Lit 48), Eol]) [TGrp 1] string)"

definition simple_equation :: "pystr \<Rightarrow> pystr" where
  "simple_equation string =
     (case split (ustr ''='') string of
        [lhs, rhs] \<Rightarrow> if length lhs \<le> 2 then rhs else string
      | _ \<Rightarrow> string)"

definition strip_finish :: "py_env \<Rightarrow> pystr \<Rightarrow> pystr" where
  "strip_finish E string =
     (if length string = 0 then string
      else
        (let string = (if hd string = 46 then ustr ''0'' @ string else string);
             string = simple_equation string;
             string = fix_sqrt E string;
             string = replace (ustr '' '') [] string;
             string = fix_fracs string
         in fix_a_slash_b string))"

definition strip_string :: "py_env \<Rightarrow> pystr \<Rightarrow> bool \<Rightarrow> pystr" where
  "strip_string E string skip_unit =
     strip_finish E
      (clean_trailing_zeros E
        (remove_words E
          (infinity_normalization
            (remove_enclosing_brackets E
              (decimal_normalization
                (remove_percentage
                  (clean_text_formatting E
                    (convert_word_number E
                      (remove_degree_currency
                        (strip_units E skip_unit
                          (remove_text_units E
                            (latex_normalization
                              (matrix_normalization E
                                (strip_start string))))))))))))))"

subsection \<open>\<open>choice_answer_clean\<close>\<close>

text \<open>The pattern \<open>r"\b(A|B|C|D|E)\b"\<close>.\<close>

definition choice_rx :: rx where
  "choice_rx =
     seq [Bnd,
          Grp 1 (Or (Atom (Lit 65)) (Or (Atom (Lit 66)) (Or (Atom (Lit 67))
                  (Or (Atom (Lit 68)) (Atom (Lit 69)))))),
          Bnd]"

text \<open>
  Lines 331 to 340: newlines are stripped from both ends, and when a trigger phrase occurs
  more than once only the text before the first blank line is kept.
\<close>

definition icl_head :: "pystr \<Rightarrow> py_error + pystr" where
  "icl_head pred =
     (let pred = strip_chars [10] pred;
          ICL = (1 < count (ustr ''choice is'') pred \<or> 1 < count (ustr ''answer is'') pred)
      in if ICL then idx (split [10, 10] pred) 0 else Inr pred)"

text \<open>The pattern \<open>"choice is|answer is"\<close> of \<open>re.split\<close>.\<close>

definition trigger_rx :: rx where
  "trigger_rx = Or (lits (ustr ''choice is'')) (lits (ustr ''answer is''))"

text \<open>Line 350.\<close>

definition strip_ends :: "pystr \<Rightarrow> pystr" where
  "strip_ends pred =
     lstrip (ustr '':'') (strip_chars (ustr '' '')
       (rstrip (ustr ''/'') (rstrip (ustr ''.'') (strip_chars [10] pred))))"

text \<open>Lines 331 to 350: \<open>answer_flag\<close> and the segment of the prediction that is searched.\<close>

definition choice_segment :: "py_env \<Rightarrow> pystr \<Rightarrow> py_error + bool \<times> pystr" where
  "choice_segment E pred =
     and_then (icl_head pred) (\<lambda>pred.
       let preds = rx_split E trigger_rx pred;
           answer_flag = (1 < length preds)
       in and_then (if answer_flag then idx preds (- 1) else Inr pred) (\<lambda>pred.
            Inr (answer_flag, strip_ends pred)))"

definition choice_answer_clean :: "py_env \<Rightarrow> pystr \<Rightarrow> py_error + pystr" where
  "choice_answer_clean E pred =
     and_then (choice_segment E pred) (\<lambda>(answer_flag, pred).
       let tmp = findall_group E choice_rx 1 (upper E pred);
           preds = (if tmp \<noteq> [] then tmp else [strip_chars (ustr ''.'') (strip pred)])
       in and_then (if length preds = 0 then Inr []
                    else if answer_flag then idx preds 0 else idx preds (- 1)) (\<lambda>pred.
          Inr (rstrip (ustr ''/'') (rstrip (ustr ''.'') pred))))"

subsection \<open>\<open>extract_answer\<close>\<close>

text \<open>
  The loop of the boxed branch over \<open>ans[1:]\<close>: \<open>stack\<close> is the depth of open braces and
  \<open>a\<close> the text kept so far; the loop breaks when the depth comes back to zero.
\<close>

fun boxed_scan :: "int \<Rightarrow> pystr \<Rightarrow> pystr \<Rightarrow> pystr" where
  "boxed_scan stack a [] = a"
| "boxed_scan stack a (c # cs) =
     (if c = 123 then boxed_scan (stack + 1) (a @ [c]) cs
      else if c = 125 then (if stack - 1 = 0 then a else boxed_scan (stack - 1) (a @ [c]) cs)
      else boxed_scan stack (a @ [c]) cs)"

text \<open>
  The strategies of \<open>extract_answer\<close> either leave the function at once (the boxed branch
  with nothing behind \<open>boxed\<close> has \<open>return ""\<close>) or hand \<open>pred\<close> to the rest of it.
\<close>

datatype flow = Return pystr | Go pystr

definition extract_boxed :: "pystr \<Rightarrow> py_error + flow" where
  "extract_boxed pred_str =
     and_then (idx (split (ustr ''boxed'') pred_str) (- 1)) (\<lambda>ans.
       if length ans = 0 then Inr (Return [])
       else if hd ans = 123 then Inr (Go (boxed_scan 1 [] (tl ans)))
       else and_then (idx (split (ustr ''$'') ans) 0) (\<lambda>a. Inr (Go (strip a))))"

text \<open>The pattern \<open>r"-?\d*\.?\d+"\<close> of the last-number fallback.\<close>

definition number_rx :: rx where
  "number_rx = seq [Opt (Lit 45), Star Digit, Opt (Lit 46), Plus Digit]"

definition extract_pred :: "py_env \<Rightarrow> pystr \<Rightarrow> bool \<Rightarrow> py_error + flow" where
  "extract_pred E pred_str use_last_number =
     (if contains (ustr ''final answer is $'') pred_str \<and> contains (ustr ''$. I hope'') pred_str
      then and_then (idx (split1 (ustr ''final answer is $'') pred_str) 1) (\<lambda>tmp.
           and_then (idx (split1 (ustr ''$. I hope'') tmp) 0) (\<lambda>a. Inr (Go (strip a))))
      else if contains (ustr ''boxed'') pred_str then extract_boxed pred_str
      else if contains (ustr ''he answer is'') pred_str
      then and_then (idx (split (ustr ''he answer is'') pred_str) (- 1)) (\<lambda>a. Inr (Go (strip a)))
      else if contains (ustr ''final answer is'') pred_str
      then and_then (idx (split (ustr ''final answer is'') pred_str) (- 1))
             (\<lambda>a. Inr (Go (strip a)))
      else if contains [31572, 26696, 26159] pred_str
      then and_then (idx (split [31572, 26696, 26159] pred_str) 1) (\<lambda>a.
           and_then (idx (split [10, 10] (strip a)) 0) (\<lambda>b. Inr (Go (strip b))))
      else if use_last_number
      then (let pred = findall E number_rx (replace (ustr '','') [] pred_str)
            in if 1 \<le> length pred then and_then (idx pred (- 1)) (\<lambda>a. Inr (Go a))
               else Inr (Go []))
      else Inr (Go []))"

text \<open>Lines 433 to 451: the post-processing for choice datasets, the clean-up and \<open>strip_string\<close>.\<close>

definition extract_finish :: "py_env \<Rightarrow> pystr \<Rightarrow> pystr \<Rightarrow> py_error + pystr" where
  "extract_finish E data_name pred =
     and_then
       (if data_name \<in> set [ustr ''sat_math'', ustr ''aqua''] \<or> contains (ustr ''mmlu'') data_name
        then (let tmp = findall_group E choice_rx 1 (upper E pred)
              in if tmp \<noteq> [] then idx tmp (- 1) else Inr (strip_chars (ustr ''.'') (strip pred)))
        else Inr pred)
       (\<lambda>pred.
          let pred = rx_sub E (seq [Atom (Lit 10), Star Space]) [] pred;
              pred = (if pred \<noteq> [] \<and> hd pred = 58 then tl pred else pred);
              pred = (if pred \<noteq> [] \<and> last pred = 46 then butlast pred else pred);
              pred = (if pred \<noteq> [] \<and> last pred = 47 then butlast pred else pred)
          in Inr (strip_string E pred (data_name \<in> set [ustr ''carp_en'', ustr ''minerva_math''])))"

text \<open>The two Cyrillic letters (U+043A, U+0438) that line 382 deletes.\<close>

definition ki :: pystr where
  "ki = [1082, 1080]"

definition extract_answer :: "py_env \<Rightarrow> pystr \<Rightarrow> pystr \<Rightarrow> bool \<Rightarrow> py_error + pystr" where
  "extract_answer E pred_str data_name use_last_number =
     (let pred_str = replace ki [] pred_str
      in if data_name \<in> set [ustr ''mmlu_stem'', ustr ''sat_math'', ustr ''aqua'', ustr ''gaokao2023'']
         then choice_answer_clean E pred_str
         else and_then (extract_pred E pred_str use_last_number) (\<lambda>r.
                case r of Return a \<Rightarrow> Inr a | Go pred \<Rightarrow> extract_finish E data_name pred))"

section \<open>examples/DAPO/hf\_math\_verify.py\<close>

subsection \<open>\<open>extract_solution\<close>\<close>

fun remove_stop_words :: "pystr list \<Rightarrow> pystr \<Rightarrow> py_error + pystr" where
  "remove_stop_words [] model_output = Inr model_output"
| "remove_stop_words (stop_word # stop_words) model_output =
     (if contains stop_word model_output
      then and_then (idx (split stop_word model_output) 0)
             (\<lambda>a. remove_stop_words stop_words (strip a))
      else remove_stop_words stop_words model_output)"

definition stop_words :: "pystr list" where
  "stop_words = [ustr ''</s>'', ustr ''<|im_end|>'', ustr ''<|endoftext|>'', ustr ''[END]'']"

text \<open>\<open>model_output[-300:]\<close>.\<close>

definition last300 :: "pystr \<Rightarrow> pystr" where
  "last300 s = drop (length s - 300) s"

definition trim_response :: "py_env \<Rightarrow> pystr \<Rightarrow> py_error + pystr" where
  "trim_response E response =
     remove_stop_words stop_words
       (rx_sub1 E (seq [Bol, Lazy DotAll, lits (ustr ''<|im_start|>assistant'')])
          [TLit (ustr ''<|im_start|>assistant'')] response)"

definition extract_solution :: "py_env \<Rightarrow> pystr \<Rightarrow> py_error + pystr" where
  "extract_solution E response =
     and_then (trim_response E response) (\<lambda>model_output.
       extract_answer E (last300 model_output) (ustr ''math'') False)"

subsection \<open>\<open>_verify_with_sympy\<close> and \<open>_hf_verify\<close>\<close>

text \<open>
  \<open>parse\<close> and \<open>sympy_expr_eq\<close> belong to the math\_verify package and are parameters. A
  parsed value is a sympy expression or matrix, a string, or an object of another type;
  \<open>parse\<close> returns a list of them or something that is not a list, or raises.
  \<open>sympy_expr_eq\<close> is taken with the source's arguments \<open>float_rounding=6\<close>,
  \<open>numeric_precision=15\<close>, \<open>strict=True\<close>, and may raise.
\<close>

datatype 'e pyval = Expr 'e | Str pystr | Other

datatype 'e parsed = PList "'e pyval list" | PSingle "'e pyval"

record 'e math_verify =
  parse :: "pystr \<Rightarrow> py_error + 'e parsed"
  sympy_expr_eq :: "'e \<Rightarrow> 'e \<Rightarrow> py_error + bool"

fun compare_single :: "'e math_verify \<Rightarrow> 'e pyval \<Rightarrow> 'e pyval \<Rightarrow> py_error + bool" where
  "compare_single V (Expr gold) (Expr target) = sympy_expr_eq V gold target"
| "compare_single V (Str gold) (Str target) =
     (let gold = strip gold; target = strip target
      in Inr (0 < length gold \<and> 0 < length target \<and> gold = target))"
| "compare_single V _ _ = Inr False"

definition safe_compare :: "'e math_verify \<Rightarrow> 'e pyval \<Rightarrow> 'e pyval \<Rightarrow> bool" where
  "safe_compare V g t = (case compare_single V g t of Inl e \<Rightarrow> False | Inr b \<Rightarrow> b)"

definition as_list :: "'e parsed \<Rightarrow> 'e pyval list" where
  "as_list x = (case x of PList xs \<Rightarrow> xs | PSingle v \<Rightarrow> [v])"

definition verify_with_sympy :: "'e math_verify \<Rightarrow> 'e parsed \<Rightarrow> 'e parsed \<Rightarrow> bool" where
  "verify_with_sympy V gold target =
     list_ex (\<lambda>(g, t). safe_compare V g t) (List.product (as_list gold) (as_list target))"

text \<open>
  \<open>_hf_verify\<close> returns its answer; the model pairs it with the texts it handed to
  \<open>parse\<close>, in the order of the calls.
\<close>

definition hf_verify :: "'e math_verify \<Rightarrow> pystr \<Rightarrow> pystr \<Rightarrow> bool \<times> pystr list" where
  "hf_verify V gold target =
     (if gold = target then (True, [])
      else (case parse V target of
              Inl e \<Rightarrow> (False, [target])
            | Inr parsed_target \<Rightarrow>
                (case parse V gold of
                   Inl e \<Rightarrow> (False, [target, gold])
                 | Inr parsed_gold \<Rightarrow>
                     (verify_with_sympy V parsed_gold parsed_target, [target, gold]))))"

subsection \<open>\<open>get_dapo_math_reward\<close>\<close>

text \<open>
  The label is \<open>None\<close>, a string or an integer; \<open>not label\<close> holds for \<open>None\<close>, the
  empty string and zero, and \<open>str(label)\<close> is the string itself or the decimal numeral.
\<close>

datatype label = LNone | LStr pystr | LInt int

fun falsy :: "label \<Rightarrow> bool" where
  "falsy LNone = True"
| "falsy (LStr t) = (t = [])"
| "falsy (LInt i) = (i = 0)"

fun label_str :: "label \<Rightarrow> pystr" where
  "label_str LNone = ustr ''None''"
| "label_str (LStr t) = t"
| "label_str (LInt i) = py_str i"

text \<open>
  The result of \<open>get_dapo_math_reward\<close> comes with the calls of \<open>extract_solution\<close> and of
  \<open>_hf_verify\<close> made on the way, each with its arguments (\<open>gold\<close>, then \<open>target\<close>).
\<close>

datatype call = ExtractSolution pystr | HfVerify pystr pystr

definition boxed_wrap :: "pystr \<Rightarrow> pystr" where
  "boxed_wrap a = (if \<not> contains (cmd ''boxed'') a then cmd ''boxed{'' @ a @ ustr ''}'' else a)"

definition get_dapo_math_reward ::
  "py_env \<Rightarrow> 'e math_verify \<Rightarrow> pystr \<Rightarrow> label \<Rightarrow> (py_error + int) \<times> call list"
where
  "get_dapo_math_reward E V response label =
     (if falsy label then (Inr 0, [])
      else (let label = label_str label
            in case extract_solution E response of
                 Inl e \<Rightarrow> (Inl e, [ExtractSolution response])
               | Inr extracted_answer \<Rightarrow>
                   if extracted_answer = [] then (Inr 0, [ExtractSolution response])
                   else (let boxed_answer = boxed_wrap extracted_answer;
                             boxed_label = boxed_wrap label;
                             is_correct = fst (hf_verify V boxed_label boxed_answer)
                         in (Inr (if is_correct then 1 else 0),
                             [ExtractSolution response, HfVerify boxed_label boxed_answer]))))"

section \<open>examples/search-r1/local\_search\_server.py\<close>

text \<open>
  What \<open>await resp.json()\<close> returns: a dict, a list, a string, a number, a boolean or
  \<open>None\<close>. A dict is kept as the list of its items in the order of the document, where a
  later item with the same key replaces an earlier one. Numbers are integers here.
\<close>

datatype json = JNull | JBool bool | JNum int | JStr pystr | JArr "json list"
  | JObj "(pystr \<times> json) list"

text \<open>\<open>d.get(key, dflt)\<close>; on a value that is not a dict the attribute is missing.\<close>

definition dict_get :: "json \<Rightarrow> pystr \<Rightarrow> json \<Rightarrow> py_error + json" where
  "dict_get d key dflt =
     (case d of
        JObj items \<Rightarrow> Inr (case map_of (rev items) key of None \<Rightarrow> dflt | Some v \<Rightarrow> v)
      | _ \<Rightarrow> Inl AttributeError)"

text \<open>\<open>v[0]\<close>.\<close>

definition subscript0 :: "json \<Rightarrow> py_error + json" where
  "subscript0 v =
     (case v of
        JArr xs \<Rightarrow> idx xs 0
      | JStr t \<Rightarrow> (if t = [] then Inl IndexError else Inr (JStr [hd t]))
      | JObj items \<Rightarrow> Inl KeyError
      | _ \<Rightarrow> Inl TypeError)"

text \<open>The items that \<open>for item in v\<close> visits.\<close>

definition iterate :: "json \<Rightarrow> py_error + json list" where
  "iterate v =
     (case v of
        JArr xs \<Rightarrow> Inr xs
      | JStr t \<Rightarrow> Inr (map (\<lambda>c. JStr [c]) t)
      | JObj items \<Rightarrow> Inr (map JStr (rev (remdups (rev (map fst items)))))
      | _ \<Rightarrow> Inl TypeError)"

definition truthy :: "json \<Rightarrow> bool" where
  "truthy v =
     (case v of
        JNull \<Rightarrow> False
      | JBool b \<Rightarrow> b
      | JNum n \<Rightarrow> n \<noteq> 0
      | JStr t \<Rightarrow> t \<noteq> []
      | JArr xs \<Rightarrow> xs \<noteq> []
      | JObj items \<Rightarrow> items \<noteq> [])"

text \<open>Lines 95 to 111, for a \<open>content\<close> that is a string.\<close>

definition format_content :: "pystr \<Rightarrow> py_error + pystr" where
  "format_content content =
     (let lines = split1 [10] content
      in and_then (if lines \<noteq> [] then and_then (idx lines 0) (\<lambda>l. Inr (strip l))
                   else Inr (ustr ''No title.'')) (\<lambda>title.
         and_then (if 1 < length lines then and_then (idx lines 1) (\<lambda>l. Inr (strip l))
                   else Inr []) (\<lambda>text.
           let title = strip_chars [34] title;
               title = (if title \<noteq> [] then [34] @ title @ [34] else [34] @ ustr ''No title.'' @ [34]);
               text = (if text = [] then ustr ''No snippet available.'' else text)
           in Inr (title @ [10] @ text))))"

text \<open>
  The loop over \<open>retrieval_results\<close>. An entry of \<open>contexts\<close>,
  \<open>{"document": {"contents": c}}\<close>, is kept as the string \<open>c\<close>.
\<close>

fun format_items :: "json list \<Rightarrow> pystr list \<Rightarrow> py_error + pystr list" where
  "format_items [] contexts = Inr contexts"
| "format_items (item # items) contexts =
     (case item of
        JObj kvs \<Rightarrow>
          and_then (dict_get item (ustr ''contents'') (JStr [])) (\<lambda>content.
            if truthy content
            then (case content of
                    JStr c \<Rightarrow> and_then (format_content c)
                               (\<lambda>formatted. format_items items (contexts @ [formatted]))
                  | _ \<Rightarrow> Inl AttributeError)
            else format_items items
                   (contexts @ [[34] @ ustr ''No title.'' @ [34, 10] @ ustr ''No snippet available.'']))
      | _ \<Rightarrow> format_items items contexts)"

text \<open>
  \<open>local_search\<close> from the outcome of the request: \<open>Inl\<close> for an exception raised inside
  the \<open>try\<close> block (connection, time-out, HTTP status, undecodable body), \<open>Inr\<close> for the
  decoded body.
\<close>

definition local_search :: "py_error + json \<Rightarrow> py_error + pystr list" where
  "local_search outcome =
     (case outcome of
        Inl e \<Rightarrow> Inr []
      | Inr result \<Rightarrow>
          and_then (dict_get result (ustr ''result'') (JArr [JArr []])) (\<lambda>r.
          and_then (subscript0 r) (\<lambda>retrieval_results.
          and_then (iterate retrieval_results) (\<lambda>items. format_items items []))))"

section \<open>Statements of the specification\<close>



text \<open>
  ``No answer pattern occurs'' in a text: none of the markers that the strategies of
  \<open>extract_answer\<close> look for (the marker \<open>final answer is $\<close> holds \<open>final answer is\<close>).
\<close>

definition no_answer_pattern :: "pystr \<Rightarrow> bool" where
  "no_answer_pattern t =
     (\<not> contains (ustr ''boxed'') t \<and> \<not> contains (ustr ''he answer is'') t
      \<and> \<not> contains (ustr ''final answer is'') t \<and> \<not> contains [31572, 26696, 26159] t)"

section \<open>Characters a pattern cannot match without\<close>

text \<open>
  \<open>req r\<close> lists characters that every match of \<open>r\<close> contains: the literal characters
  on the way through a sequence, and for an alternation those that both branches require.
  A text that lacks one of them holds no match of \<open>r\<close>.
\<close>

fun req :: "rx \<Rightarrow> nat list" where
  "req (Atom (Lit k)) = [k]"
| "req (Cat r1 r2) = req r1 @ req r2"
| "req (Or r1 r2) = filter (\<lambda>c. c \<in> set (req r2)) (req r1)"
| "req (Grp k r) = req r"
| "req _ = []"

text \<open>The characters of decimal numerals: the ASCII digits and the full stop.\<close>

definition numeral_char :: "nat \<Rightarrow> bool" where
  "numeral_char c = (ascii_digit c \<or> c = 46)"

section \<open>An environment for evaluation\<close>

text \<open>
  The closed facts below are evaluated in \<open>env0\<close>. Its Unicode tables classify no code
  point above ASCII. Its \<open>word_to_num\<close> does what the package does on a text that holds
  none of its number words: a text of ASCII digits is read as that number, and on any other
  text the call raises. The inputs evaluated in \<open>env0\<close> are ASCII texts without number
  words, so its fields are used only where they agree with the libraries.
\<close>

definition digits_to_num :: "pystr \<Rightarrow> pystr option" where
  "digits_to_num t =
     (if t \<noteq> [] \<and> list_all ascii_digit t then Some (py_str (digits_value t)) else None)"

definition env0 :: py_env where
  "env0 = \<lparr>uni_alnum = (\<lambda>c. False), uni_decimal = (\<lambda>c. False), uni_upper = (\<lambda>c. [c]),
            word_to_num = digits_to_num\<rparr>"

text \<open>
  \<open>env_ki\<close> also knows the two Cyrillic letters of \<open>ki\<close>: they are letters, and their
  capitals are U+041A and U+0418.
\<close>

definition env_ki :: py_env where
  "env_ki = env0\<lparr>uni_alnum := (\<lambda>c. c \<in> set [1082, 1080, 1050, 1048]),
                  uni_upper := (\<lambda>c. if c = 1082 then [1050] else if c = 1080 then [1048] else [c])\<rparr>"

text \<open>A \<open>math_verify\<close> whose \<open>parse\<close> finds nothing to parse in any text.\<close>

definition parse_nothing :: "unit math_verify" where
  "parse_nothing = \<lparr>parse = (\<lambda>t. Inr (PList [])), sympy_expr_eq = (\<lambda>a b. Inr True)\<rparr>"





text \<open>A prediction in which deleting the inner \<open>ki\<close> brings the outer letters together.\<close>

definition kkii :: pystr where
  "kkii = [1082, 1082, 1080, 1080]"

text \<open>
  The unfolding equations of the functions below hold for every argument; they are used
  step by step and not as rewrite rules.
\<close>

declare digits_of.simps [simp del]
declare rx_sub_from.simps [simp del]
declare rx_matches.simps [simp del]

section \<open>Facts for evaluation\<close>

lemmas string_defs = ustr_def cmd_def strip_def rstrip_def lstrip_def strip_chars_def split_def
  split1_def is_space_def is_word_def is_alnum_def is_digit_def ascii_alpha_def ascii_digit_def
  isalnum_def upper_def upper_char_def idx_def and_then_def

lemmas rx_defs = rx_sub_def rx_sub1_def seq_def word_before_def word_after_def
  rx_sub_from.simps [of _ _ _ _ "[]"] rx_sub_from.simps [of _ _ _ _ "c # cs" for c cs]
  rx_matches.simps [of _ _ _ _ "[]"] rx_matches.simps [of _ _ _ _ "c # cs" for c cs]
  findall_def findall_group_def rx_split_def

lemma strip_units_skip: "strip_units E True string = string"
  by (simp add: strip_units_def)

lemmas strip_defs = strip_string_def strip_start_def matrix_normalization_def
  latex_normalization_def remove_text_units_def remove_degree_currency_def
  convert_word_number_def clean_text_formatting_def remove_percentage_def
  decimal_normalization_def remove_enclosing_brackets_def infinity_normalization_def
  remove_words_def clean_trailing_zeros_def strip_finish_def simple_equation_def fix_sqrt_def
  fix_fracs_def fix_a_slash_b_def slash_side_def py_int_def py_str_def digits_value_def
  digits_to_num_def digits_of.simps [of "numeral k" for k] digits_of.simps [of 0]
  digits_of.simps [of 1] digits_of.simps [of "Suc 0"] strip_units_skip

lemmas choice_defs = choice_answer_clean_def choice_segment_def icl_head_def trigger_rx_def
  strip_ends_def choice_rx_def

section \<open>Facts about strings\<close>

lemma contains_set: "contains p s \<Longrightarrow> set p \<subseteq> set s"
proof (induction s)
  case Nil
  then show ?case by simp
next
  case (Cons c cs)
  show ?case
  proof (cases "prefix p (c # cs)")
    case True
    then show ?thesis by (rule set_mono_prefix)
  next
    case False
    with Cons show ?thesis by auto
  qed
qed

lemma replace_id: "\<not> contains old s \<Longrightarrow> replace old new s = s"
  by (induction old new s rule: replace.induct) auto

lemma replace_foreign:
  "list_all P s \<Longrightarrow> list_ex (\<lambda>c. \<not> P c) old \<Longrightarrow> replace old new s = s"
proof -
  assume a: "list_all P s" and b: "list_ex (\<lambda>c. \<not> P c) old"
  have "\<not> contains old s"
  proof
    assume "contains old s"
    then have "set old \<subseteq> set s" by (rule contains_set)
    with a b show False by (auto simp: list_all_iff list_ex_iff)
  qed
  then show ?thesis by (rule replace_id)
qed

lemma contains_foreign:
  "list_all P s \<Longrightarrow> list_ex (\<lambda>c. \<not> P c) p \<Longrightarrow> \<not> contains p s"
  using contains_set by (fastforce simp: list_all_iff list_ex_iff)

lemma split_from_id: "\<not> contains sep s \<Longrightarrow> split_from sep cur s = [cur @ s]"
  by (induction sep cur s rule: split_from.induct) auto

lemma split_id: "\<not> contains sep s \<Longrightarrow> split sep s = [s]"
  by (simp add: split_def split_from_id)




lemma idx_last: "xs \<noteq> [] \<Longrightarrow> idx xs (- 1) = Inr (last xs)"
  by (simp add: idx_def Let_def last_conv_nth nat_diff_distrib' int_ops(6) algebra_simps)

lemma strip_no_space: "list_all (\<lambda>c. \<not> is_space c) s \<Longrightarrow> strip s = s"
proof -
  assume a: "list_all (\<lambda>c. \<not> is_space c) s"
  have "dropWhile is_space s = s"
    using a by (cases s) auto
  moreover have "dropWhile is_space (rev s) = rev s"
  proof (cases "rev s")
    case Nil
    then show ?thesis by simp
  next
    case (Cons b bs)
    then have "b \<in> set s" by (metis list.set_intros(1) set_rev)
    with a have "\<not> is_space b" by (simp add: list_all_iff)
    with Cons show ?thesis by simp
  qed
  ultimately show ?thesis by (simp add: strip_def)
qed

lemma rstrip_id: "s = [] \<or> last s \<notin> set chars \<Longrightarrow> rstrip chars s = s"
  by (cases "rev s") (auto simp: rstrip_def last_rev hd_rev[symmetric] split: if_splits)

section \<open>Matching\<close>

lemma runs_suffix: "(q, t) \<in> set (runs E a p s) \<Longrightarrow> suffix t s"
  by (induction s arbitrary: p) (auto simp: suffix_Cons split: if_splits)

lemma runs_nonempty: "runs E a p s \<noteq> []"
  by (cases s) auto

lemma rx_m_suffix: "(q, t, h) \<in> set (rx_m E r (p, s, g)) \<Longrightarrow> suffix t s"
proof (induction r arbitrary: p s g q t h)
  case (Atom a)
  then show ?case by (cases s) (auto simp: suffix_Cons split: if_splits)
next
  case (Star a)
  then show ?case by (auto dest: runs_suffix)
next
  case (Lazy a)
  then show ?case by (auto dest: runs_suffix)
next
  case (Plus a)
  then show ?case by (auto dest!: list.set_sel(2)[OF runs_nonempty] runs_suffix)
next
  case (Opt a)
  then show ?case by (auto dest!: in_set_takeD runs_suffix)
next
  case (Cat r1 r2)
  from Cat.prems obtain q' t' h' where
    a: "(q', t', h') \<in> set (rx_m E r1 (p, s, g))" and b: "(q, t, h) \<in> set (rx_m E r2 (q', t', h'))"
    by auto
  from Cat.IH(1)[OF a] Cat.IH(2)[OF b] show ?case
    using suffix_order.trans by blast
next
  case (Or r1 r2)
  then show ?case by auto
next
  case (Grp k r)
  then show ?case by auto
qed (auto split: if_splits)

lemma req_no_match: "c \<in> set (req r) \<Longrightarrow> c \<notin> set s \<Longrightarrow> rx_m E r (p, s, g) = []"
proof (induction r arbitrary: p s g)
  case (Atom a)
  then show ?case by (cases a; cases s) auto
next
  case (Cat r1 r2)
  show ?case
  proof (cases "c \<in> set (req r1)")
    case True
    with Cat show ?thesis by simp
  next
    case False
    with Cat.prems have c2: "c \<in> set (req r2)" by simp
    have "rx_m E r2 st = []" if "st \<in> set (rx_m E r1 (p, s, g))" for st
    proof -
      obtain q t h where st: "st = (q, t, h)" by (cases st) auto
      with that have "suffix t s" using rx_m_suffix by blast
      then have "set t \<subseteq> set s" by (rule set_mono_suffix)
      with Cat.prems(2) have "c \<notin> set t" by blast
      with Cat.IH(2)[OF c2] st show ?thesis by simp
    qed
    then show ?thesis by (simp add: concat_eq_Nil_conv)
  qed
next
  case (Or r1 r2)
  then show ?case by simp
next
  case (Grp k r)
  then show ?case by simp
qed simp_all

lemma rx_sub_from_no_match:
  "(\<And>p t. suffix t s \<Longrightarrow> rx_m E r (p, t, []) = []) \<Longrightarrow> rx_sub_from E r tm p s = s"
proof (induction s arbitrary: p)
  case Nil
  then show ?case by (simp add: rx_sub_from.simps)
next
  case (Cons c cs)
  have "rx_sub_from E r tm (Some c) cs = cs"
    by (rule Cons.IH) (simp add: Cons.prems suffix_Cons)
  moreover have "rx_m E r (p, c # cs, []) = []"
    by (rule Cons.prems) simp
  ultimately show ?case by (simp add: rx_sub_from.simps [of _ _ _ _ "c # cs"])
qed

lemma rx_sub_foreign:
  assumes "list_all P s" and "list_ex (\<lambda>c. \<not> P c) (req r)"
  shows "rx_sub E r tm s = s"
proof -
  from assms(2) obtain c where c: "c \<in> set (req r)" "\<not> P c" by (auto simp: list_ex_iff)
  with assms(1) have "c \<notin> set s" by (auto simp: list_all_iff)
  then have "rx_m E r (p, t, []) = []" if "suffix t s" for p t
    using that c(1) req_no_match set_mono_suffix by blast
  then show ?thesis unfolding rx_sub_def by (rule rx_sub_from_no_match)
qed

lemma req_seq: "set (req (seq rs)) = (\<Union>r \<in> set rs. set (req r))"
  by (induction rs) (auto simp: seq_def)

lemma req_lits: "set (req (lits p)) = set p"
  by (induction p) auto

lemma req_unit_body: "set (req (unit_body u)) = {c \<in> set u. c \<noteq> 46}"
  by (induction u) (auto simp: unit_body_def seq_def)

lemma req_unit_rx: "set (req (unit_rx u)) = {c \<in> set u. c \<noteq> 46}"
  by (simp add: unit_rx_def req_seq req_unit_body)

text \<open>A unit text with a character other than the full stop that the text lacks leaves it.\<close>

lemma unit_foreign:
  assumes "list_all P s" and "list_ex (\<lambda>c. c \<noteq> 46 \<and> \<not> P c) u"
  shows "rx_sub E (unit_rx u) tm s = s"
proof (rule rx_sub_foreign [OF assms(1)])
  from assms(2) show "list_ex (\<lambda>c. \<not> P c) (req (unit_rx u))"
    by (auto simp: list_ex_iff req_unit_rx)
qed

lemma strip_units_pass_foreign:
  "list_all P s \<Longrightarrow> list_all (list_ex (\<lambda>c. c \<noteq> 46 \<and> \<not> P c)) units
     \<Longrightarrow> strip_units_pass E units s = s"
  by (induction units) (simp_all add: unit_foreign)

section \<open>Unit texts and numerals\<close>

lemma list_all_plural:
  "list_all (list_ex Q) xs \<Longrightarrow> list_all (list_ex Q) (map (\<lambda>t. t @ e) xs)"
  by (induction xs) auto

lemma units_singular_need_letter:
  "list_all (list_ex (\<lambda>c. c \<noteq> 46 \<and> \<not> numeral_char c)) UNIT_TEXTS_singular"
  by (simp add: UNIT_TEXTS_singular_def ustr_def numeral_char_def ascii_digit_def)

lemma units_need_letter:
  "list_all (list_ex (\<lambda>c. c \<noteq> 46 \<and> \<not> numeral_char c)) UNIT_TEXTS"
  by (simp add: UNIT_TEXTS_def units_singular_need_letter list_all_plural)

lemma strip_units_numeral: "list_all numeral_char s \<Longrightarrow> strip_units E skip_unit s = s"
  by (simp add: strip_units_def strip_units_pass_foreign [OF _ units_need_letter])

section \<open>Extraction from a text without markers\<close>

lemma strip_string_empty: "word_to_num E [] = None \<Longrightarrow> strip_string E [] skip_unit = []"
  by (simp add: string_defs rx_defs strip_defs strip_units_numeral)



lemma contains_append: "contains (p @ q) s \<Longrightarrow> contains p s"
  by (induction s) (auto dest: append_prefixD)

lemma extract_pred_no_pattern:
  "no_answer_pattern t \<Longrightarrow> extract_pred E t False = Inr (Go [])"
proof -
  assume a: "no_answer_pattern t"
  have "\<not> contains (ustr ''final answer is'' @ ustr '' $'') t"
    using a contains_append unfolding no_answer_pattern_def by blast
  moreover have "ustr ''final answer is'' @ ustr '' $'' = ustr ''final answer is $''"
    by (simp add: ustr_def)
  ultimately have "\<not> contains (ustr ''final answer is $'') t" by simp
  with a show ?thesis by (simp add: extract_pred_def no_answer_pattern_def)
qed

lemma extract_finish_math_empty:
  "word_to_num E [] = None \<Longrightarrow> extract_finish E (ustr ''math'') [] = Inr []"
  by (simp add: extract_finish_def strip_string_empty and_then_def rx_defs)
     (simp add: ustr_def)

lemma extract_answer_no_pattern:
  assumes "word_to_num E [] = None" and "no_answer_pattern (replace ki [] t)"
  shows "extract_answer E t (ustr ''math'') False = Inr []"
proof -
  have "ustr ''math'' \<notin> set [ustr ''mmlu_stem'', ustr ''sat_math'', ustr ''aqua'', ustr ''gaokao2023'']"
    by (simp add: ustr_def)
  then show ?thesis
    using assms
    by (simp add: extract_answer_def Let_def extract_pred_no_pattern extract_finish_math_empty
        and_then_def del: set_simps)
qed

section \<open>Texts that start with a run of one character\<close>







section \<open>Responses without markers\<close>

lemma rx_sub1_from_no_match:
  "(\<And>p t. suffix t s \<Longrightarrow> rx_m E r (p, t, []) = []) \<Longrightarrow> rx_sub1_from E r tm p s = s"
proof (induction s arbitrary: p)
  case Nil
  then show ?case by simp
next
  case (Cons c cs)
  have "rx_sub1_from E r tm (Some c) cs = cs"
    by (rule Cons.IH) (simp add: Cons.prems suffix_Cons)
  moreover have "rx_m E r (p, c # cs, []) = []"
    by (rule Cons.prems) simp
  ultimately show ?case by simp
qed

lemma rx_sub1_foreign:
  assumes "list_all P s" and "list_ex (\<lambda>c. \<not> P c) (req r)"
  shows "rx_sub1 E r tm s = s"
proof -
  from assms(2) obtain c where c: "c \<in> set (req r)" "\<not> P c" by (auto simp: list_ex_iff)
  with assms(1) have "c \<notin> set s" by (auto simp: list_all_iff)
  then have "rx_m E r (p, t, []) = []" if "suffix t s" for p t
    using that c(1) req_no_match set_mono_suffix by blast
  then show ?thesis unfolding rx_sub1_def by (rule rx_sub1_from_no_match)
qed

text \<open>A response without \<open><\<close> and \<open>[\<close> holds no assistant marker and no stop word.\<close>

lemma trim_response_plain:
  assumes "list_all (\<lambda>c. c \<noteq> 60 \<and> c \<noteq> 91) response"
  shows "trim_response E response = Inr response"
proof -
  have "rx_sub1 E (seq [Bol, Lazy DotAll, lits (ustr ''<|im_start|>assistant'')])
          [TLit (ustr ''<|im_start|>assistant'')] response = response"
    by (rule rx_sub1_foreign [OF assms]) (simp add: seq_def ustr_def)
  moreover have "\<not> contains w response" if "w \<in> set stop_words" for w
    using that by (auto simp: stop_words_def ustr_def intro!: contains_foreign [OF assms])
  ultimately show ?thesis
    by (simp add: trim_response_def stop_words_def)
qed


section \<open>The retrieval wrapper\<close>

lemma local_search_transport_failure: "local_search (Inl e) = Inr []"
  by (simp add: local_search_def)

text \<open>
  Claim C9. The wrapper is to return the empty list on any transport or parse failure and
  never to raise. A failure inside the \<open>try\<close> block does give the empty list
  (\<open>local_search_transport_failure\<close>), but the body is read outside the block: for the
  body \<open>{"result": []}\<close>, which decodes without error, \<open>[0]\<close> raises IndexError, and the
  exception reaches the caller.
\<close>

theorem local_search_empty_result_raises:
  "local_search (Inr (JObj [(ustr ''result'', JArr [])])) = Inl IndexError"
  by (simp add: local_search_def dict_get_def subscript0_def idx_def and_then_def ustr_def)

section \<open>The bracket stage of the normalizer\<close>

lemma not_alnum_bracket: "c \<in> {123, 40, 91} \<Longrightarrow> \<not> is_alnum E c"
  by (auto simp: is_alnum_def ascii_alpha_def ascii_digit_def)

lemma remove_enclosing_brackets_id: "remove_enclosing_brackets E string = string"
proof -
  have "\<not> (prefix [c] string \<and> isalnum E string)" if "c \<in> {123, 40, 91}" for c
  proof
    assume h: "prefix [c] string \<and> isalnum E string"
    then obtain cs where "string = c # cs" by (auto simp: prefix_def)
    with h have "is_alnum E c" by (simp add: isalnum_def)
    with that show False using not_alnum_bracket by blast
  qed
  then show ?thesis
    by (auto simp: remove_enclosing_brackets_def ustr_def)
qed

text \<open>
  Claim C3. A string that starts and ends with a matching pair of brackets around
  alphanumeric text is to lose that pair. The source asks \<open>string.isalnum()\<close> of the whole
  string, whose first character is the bracket, so the test never holds and the stage
  returns every string as it is (\<open>remove_enclosing_brackets_id\<close>): \<open>{5}\<close>, \<open>(5)\<close> and
  \<open>[5]\<close> keep their brackets, at the stage and through the whole of \<open>strip_string\<close>.
\<close>

theorem remove_enclosing_brackets_keeps_brackets:
  "remove_enclosing_brackets env0 (ustr ''{5}'') = ustr ''{5}'' \<and>
   remove_enclosing_brackets env0 (ustr ''(5)'') = ustr ''(5)'' \<and>
   remove_enclosing_brackets env0 (ustr ''[5]'') = ustr ''[5]'' \<and>
   strip_string env0 (ustr ''(5)'') True = ustr ''(5)''"
  by (simp add: string_defs rx_defs strip_defs env0_def)

section \<open>The equivalence checker\<close>








section \<open>The reward function\<close>

text \<open>
  Claim C7. \<open>get_dapo_math_reward\<close> returns 0 for a falsy label, in particular the empty
  string, before anything else is called; and when the label is not falsy and
  \<open>extract_solution\<close> returns the empty string it returns 0 after that one call. In both
  cases the result is a value, not an exception, and \<open>_hf_verify\<close> is not among the calls.
\<close>

theorem reward_zero_guards:
  "(falsy label \<longrightarrow> get_dapo_math_reward E V response label = (Inr 0, [])) \<and>
   get_dapo_math_reward E V response (LStr []) = (Inr 0, []) \<and>
   (\<not> falsy label \<and> extract_solution E response = Inr [] \<longrightarrow>
      get_dapo_math_reward E V response label = (Inr 0, [ExtractSolution response]))"
  by (simp add: get_dapo_math_reward_def)

text \<open>
  An instance: the empty label, and the label \<open>42\<close> with a response that holds no answer.
\<close>

theorem reward_zero_guards_witness:
  "falsy (LStr []) \<and>
   get_dapo_math_reward env0 parse_nothing (ustr ''I give up'') (LStr []) = (Inr 0, []) \<and>
   \<not> falsy (LStr (ustr ''42'')) \<and>
   extract_solution env0 (ustr ''I give up'') = Inr [] \<and>
   get_dapo_math_reward env0 parse_nothing (ustr ''I give up'') (LStr (ustr ''42''))
     = (Inr 0, [ExtractSolution (ustr ''I give up'')])"
proof -
  have w: "word_to_num env0 [] = None"
    by (simp add: env0_def digits_to_num_def)
  have t: "trim_response env0 (ustr ''I give up'') = Inr (ustr ''I give up'')"
    by (rule trim_response_plain) (simp add: ustr_def)
  have n: "no_answer_pattern (replace ki [] (last300 (ustr ''I give up'')))"
    by (simp add: no_answer_pattern_def last300_def ki_def ustr_def)
  have e: "extract_solution env0 (ustr ''I give up'') = Inr []"
    by (simp add: extract_solution_def t and_then_def extract_answer_no_pattern [OF w n])
  have f: "\<not> falsy (LStr (ustr ''42''))"
    by (simp add: ustr_def)
  show ?thesis
    using reward_zero_guards [of "LStr []" env0 parse_nothing "ustr ''I give up''"]
      reward_zero_guards [of "LStr (ustr ''42'')" env0 parse_nothing "ustr ''I give up''"] e f
    by simp
qed









section \<open>The deletion at the head of \<open>extract_answer\<close>\<close>

text \<open>
  Claim C10, as stated: \<open>extract_answer\<close> of a prediction equals \<open>extract_answer\<close> of the
  prediction with the occurrences of \<open>ki\<close> removed. It fails for \<open>kkii\<close>: one pass of
  \<open>str.replace\<close> deletes the inner pair and leaves \<open>ki\<close>, which the rest of the function
  returns for a multiple-choice dataset; on the text with the occurrence removed (and on the
  empty text, where no occurrence is left at all) the function returns the empty string.
\<close>

theorem extract_answer_ki_counterexample:
  "replace ki [] kkii = ki \<and>
   extract_answer env_ki kkii (ustr ''aqua'') True = Inr ki \<and>
   extract_answer env_ki (replace ki [] kkii) (ustr ''aqua'') True = Inr [] \<and>
   extract_answer env_ki [] (ustr ''aqua'') True = Inr []"
  by (simp add: extract_answer_def choice_defs kkii_def ki_def env_ki_def env0_def
      string_defs rx_defs Let_def)

text \<open>
  Claim C10, amended. Whenever the one pass of \<open>str.replace\<close> leaves no occurrence of
  \<open>ki\<close> behind, \<open>extract_answer\<close> of a prediction equals \<open>extract_answer\<close> of the
  prediction with the occurrences removed, for every dataset name and fallback flag.
\<close>

theorem extract_answer_deletes_ki:
  assumes "\<not> contains ki (replace ki [] s)"
  shows "extract_answer E s d u = extract_answer E (replace ki [] s) d u"
proof -
  have "replace ki [] (replace ki [] s) = replace ki [] s"
    using assms by (rule replace_id)
  then show ?thesis
    by (simp add: extract_answer_def)
qed

text \<open>An instance: a multiple-choice answer followed by the two letters.\<close>

theorem extract_answer_deletes_ki_witness:
  "\<not> contains ki (replace ki [] (ustr ''answer is B'' @ ki)) \<and>
   extract_answer env_ki (ustr ''answer is B'' @ ki) (ustr ''aqua'') True
     = extract_answer env_ki (replace ki [] (ustr ''answer is B'' @ ki)) (ustr ''aqua'') True \<and>
   extract_answer env_ki (ustr ''answer is B'' @ ki) (ustr ''aqua'') True = Inr (ustr ''B'')"
proof -
  have h: "\<not> contains ki (replace ki [] (ustr ''answer is B'' @ ki))"
    by (simp add: ki_def ustr_def)
  have v: "extract_answer env_ki (ustr ''answer is B'' @ ki) (ustr ''aqua'') True = Inr (ustr ''B'')"
    by (simp add: extract_answer_def choice_defs ki_def env_ki_def env0_def
        string_defs rx_defs Let_def)
  from extract_answer_deletes_ki [OF h] h v show ?thesis by blast
qed

end
